theory Spec2Isabelle
  imports Complex_Main
begin

section \<open>JavaScript values\<close>

text \<open>
  A JavaScript \<open>number\<close> is modelled as a \<^typ>\<open>real\<close>: arithmetic is exact, and the
  values \<open>NaN\<close> and \<open>Infinity\<close> are outside the model. \<open>Math.round\<close> rounds to the
  nearest integer, a tie going up (\<open>Math.round(2.5) = 3\<close>, \<open>Math.round(-2.5) = -2\<close>).
\<close>

definition Math_round :: "real \<Rightarrow> int" where
  "Math_round x = \<lfloor>x + 1 / 2\<rfloor>"

text \<open>\<open>v || 0\<close> on an optional number: a missing value and \<open>0\<close> both give \<open>0\<close>.\<close>

definition orZero :: "real option \<Rightarrow> real" where
  "orZero v = (case v of None \<Rightarrow> 0 | Some x \<Rightarrow> x)"

text \<open>
  The string \<open>x.toFixed(d)\<close>. The digits are never inspected by the code, so the string
  is kept as the number and the digit count it is printed with.
\<close>

datatype fixed_string = ToFixed real nat

text \<open>
  A value as \<open>JSON.parse\<close> and \<open>express.json()\<close> produce it. An object is an association
  list; a property is read from its first binding.
\<close>

datatype json =
    JNull
  | JBool bool
  | JNumber real
  | JString string
  | JArray "json list"
  | JObject "(string \<times> json) list"

text \<open>\<open>v.key\<close> on a value that is not \<open>null\<close>: \<open>undefined\<close> (\<open>None\<close>) unless \<open>v\<close> is an
  object with that key.\<close>

fun property :: "json \<Rightarrow> string \<Rightarrow> json option" where
  "property (JObject kvs) key = map_of kvs key"
| "property _ key = None"

text \<open>Truthiness of a property that may be \<open>undefined\<close>.\<close>

fun truthy :: "json option \<Rightarrow> bool" where
  "truthy None = False"
| "truthy (Some JNull) = False"
| "truthy (Some (JBool b)) = b"
| "truthy (Some (JNumber x)) = (x \<noteq> 0)"
| "truthy (Some (JString s)) = (s \<noteq> [])"
| "truthy (Some (JArray xs)) = True"
| "truthy (Some (JObject kvs)) = True"

text \<open>What a route handler can catch.\<close>

datatype js_exception = ZodError | TypeError string | RangeError string | UpstreamError string

text \<open>The \<open>message\<close> field of an error response: a literal of the source, or the
  \<open>message\<close> of the exception that was caught.\<close>

datatype error_message = Literal string | MessageOf js_exception

section \<open>Wallet lookup (server/routes.ts, POST /api/wallet/lookup)\<close>

subsection \<open>Input validation (shared/routes.ts, api.wallet.lookup.input)\<close>

text \<open>The character class \<open>[a-fA-F0-9]\<close>.\<close>

definition isHexDigit :: "char \<Rightarrow> bool" where
  "isHexDigit c = (c \<in> set ''abcdefABCDEF0123456789'')"

text \<open>The pattern \<open>/^0x[a-fA-F0-9]{40}$/\<close>: the whole string is \<open>0x\<close> and forty hex digits
  (in JavaScript \<open>$\<close> without the \<open>m\<close> flag matches at the end of the input only).\<close>

definition matchesAddress :: "string \<Rightarrow> bool" where
  "matchesAddress s = (take 2 s = ''0x'' \<and> length (drop 2 s) = 40 \<and> list_all isHexDigit (drop 2 s))"

text \<open>\<open>z.object({ address: z.string().regex(...) }).parse(req.body)\<close>.\<close>

definition parseWalletInput :: "json \<Rightarrow> js_exception + string" where
  "parseWalletInput body =
     (case body of
        JObject kvs \<Rightarrow>
          (case map_of kvs ''address'' of
             Some (JString s) \<Rightarrow> if matchesAddress s then Inr s else Inl ZodError
           | _ \<Rightarrow> Inl ZodError)
      | _ \<Rightarrow> Inl ZodError)"

subsection \<open>The block explorer's answer\<close>

record EthInfo =
  ethBalance :: "real option"
  ethRate :: "real option"

text \<open>
  \<open>infoDecimals\<close> is \<open>Number(info.decimals)\<close> where that is a number (\<open>None\<close> for a missing
  or non-numeric field; an ERC-20 decimals count is an integer); \<open>infoRate\<close> is
  \<open>info.price.rate\<close> where \<open>info.price\<close> is an object with a rate.
\<close>

record TokenInfo =
  infoName :: "string option"
  infoSymbol :: "string option"
  infoDecimals :: "int option"
  infoType :: "string option"
  infoRate :: "real option"

record HeldToken =
  tokenInfo :: "TokenInfo option"
  heldBalance :: "real option"

record AddressInfo =
  ETH :: "EthInfo option"
  tokens :: "HeldToken list option"
  error :: "string option option"

record RawToken =
  tokenName :: string
  tokenSymbol :: string
  balance :: fixed_string
  balanceUsd :: real

record WalletToken = RawToken +
  percentage :: int

text \<open>\<open>{ ...t, percentage: pct }\<close>.\<close>

definition withPercentage :: "RawToken \<Rightarrow> int \<Rightarrow> WalletToken" where
  "withPercentage t pct = RawToken.extend t (WalletToken.fields pct)"

text \<open>\<open>Math.pow(10, decimals)\<close> for an integer \<open>decimals\<close>.\<close>

definition pow10 :: "int \<Rightarrow> real" where
  "pow10 d = (if 0 \<le> d then 10 ^ nat d else 1 / 10 ^ nat (- d))"

definition ethEntry :: "EthInfo \<Rightarrow> RawToken" where
  "ethEntry e =
     (let ethBalance = orZero (ethBalance e);
          ethPrice = orZero (ethRate e)
      in \<lparr> tokenName = ''Ethereum'', tokenSymbol = ''ETH'',
           balance = ToFixed ethBalance 4,
           balanceUsd = of_int (Math_round (ethBalance * ethPrice * 100)) / 100 \<rparr>)"

text \<open>One pass of the loop over \<open>data.tokens\<close>; \<open>None\<close> is \<open>continue\<close>.\<close>

definition tokenEntry :: "HeldToken \<Rightarrow> RawToken option" where
  "tokenEntry token =
     (case tokenInfo token of
        None \<Rightarrow> None
      | Some info \<Rightarrow>
          (case (infoName info, infoSymbol info) of
             (Some n, Some s) \<Rightarrow>
               if n = [] \<or> s = [] then None
               else if (case infoType info of None \<Rightarrow> False | Some ty \<Rightarrow> ty \<noteq> [] \<and> ty \<noteq> ''ERC-20'')
               then None
               else
                 (let decimals = (case infoDecimals info of None \<Rightarrow> 0 | Some d \<Rightarrow> d);
                      rawBalance = orZero (heldBalance token);
                      adjustedBalance = rawBalance / pow10 decimals;
                      price = orZero (infoRate info);
                      usd = of_int (Math_round (adjustedBalance * price * 100)) / 100
                  in Some \<lparr> tokenName = n, tokenSymbol = s,
                       balance = (if adjustedBalance > 1000 then ToFixed adjustedBalance 0
                                  else ToFixed adjustedBalance 4),
                       balanceUsd = usd \<rparr>)
           | _ \<Rightarrow> None))"

definition rawTokens :: "AddressInfo \<Rightarrow> RawToken list" where
  "rawTokens data =
     (case ETH data of None \<Rightarrow> [] | Some e \<Rightarrow> [ethEntry e]) @
     (case tokens data of None \<Rightarrow> [] | Some ts \<Rightarrow> List.map_filter tokenEntry ts)"

subsection \<open>Ranking and percentages\<close>

text \<open>\<open>rawTokens.sort((a, b) => b.balanceUsd - a.balanceUsd)\<close>: a stable sort, descending
  by USD balance, followed by \<open>slice(0, 5)\<close>.\<close>

definition top5Raw :: "RawToken list \<Rightarrow> RawToken list" where
  "top5Raw raw = take 5 (sort_key (\<lambda>t. - balanceUsd t) raw)"

text \<open>
  The percentage computation on the truncated list: each share is rounded on its own,
  and the first item absorbs what the rounded shares miss of 100.
\<close>

definition topTokens :: "RawToken list \<Rightarrow> WalletToken list" where
  "topTokens top5 =
     (let totalUsd = foldl (\<lambda>sum t. sum + balanceUsd t) 0 top5;
          mapped = map (\<lambda>t. withPercentage t
                     (if totalUsd > 0 then Math_round (balanceUsd t / totalUsd * 100)
                      else Math_round (100 / of_nat (length top5)))) top5;
          pctSum = foldl (\<lambda>s t. s + percentage t) 0 mapped
      in if pctSum \<noteq> 100 \<and> length mapped > 0
         then mapped[0 := (mapped ! 0)\<lparr> percentage := percentage (mapped ! 0) + (100 - pctSum) \<rparr>]
         else mapped)"

definition walletTokens :: "AddressInfo \<Rightarrow> WalletToken list" where
  "walletTokens data = topTokens (top5Raw (rawTokens data))"

subsection \<open>The route\<close>

text \<open>What \<open>fetch\<close> and \<open>ethplorerRes.json()\<close> give: an exception, a response that is not
  \<open>ok\<close> (with its status), or the parsed body.\<close>

datatype fetch_result = FetchThrows string | NotOk nat | Body AddressInfo

text \<open>The server's world: the explorer, whether the database accepts an insert, the
  addresses looked up so far and the stored history (most recent first).\<close>

record server =
  explorer :: "string \<Rightarrow> fetch_result"
  dbUp :: bool
  lookups :: "string list"
  walletHistory :: "(string \<times> WalletToken list) list"

datatype wallet_response =
    WalletOk string "WalletToken list"
  | WalletError nat error_message

definition walletLookup :: "json \<Rightarrow> server \<Rightarrow> wallet_response \<times> server" where
  "walletLookup body srv =
     (case parseWalletInput body of
        Inl e \<Rightarrow> (WalletError 400 (Literal ''Invalid Ethereum address format''), srv)
      | Inr address \<Rightarrow>
          (let srv1 = srv\<lparr> lookups := address # lookups srv \<rparr> in
           case explorer srv address of
             FetchThrows m \<Rightarrow> (WalletError 500 (Literal ''Failed to fetch wallet data''), srv1)
           | NotOk st \<Rightarrow>
               (WalletError 502 (Literal ''Failed to fetch wallet data from blockchain''), srv1)
           | Body data \<Rightarrow>
               (case error data of
                  Some m \<Rightarrow>
                    (WalletError 400
                       (Literal (case m of None \<Rightarrow> ''Invalid address''
                                 | Some s \<Rightarrow> if s = [] then ''Invalid address'' else s)), srv1)
                | None \<Rightarrow>
                    if dbUp srv
                    then (WalletOk address (walletTokens data),
                          srv1\<lparr> walletHistory := (address, walletTokens data) # walletHistory srv \<rparr>)
                    else (WalletError 500 (Literal ''Failed to fetch wallet data''), srv1))))"

section \<open>Chat edit (server/routes.ts, POST /api/portfolio/chat)\<close>

record PortfolioItem =
  name :: string
  symbol :: "string option"
  itemPercentage :: real

text \<open>\<open>z.object({ name: z.string(), symbol: z.string().optional(), percentage: z.number() })\<close>.\<close>

definition parseItem :: "json \<Rightarrow> PortfolioItem option" where
  "parseItem j =
     (case j of
        JObject kvs \<Rightarrow>
          (case (map_of kvs ''name'', map_of kvs ''percentage'') of
             (Some (JString n), Some (JNumber p)) \<Rightarrow>
               (case map_of kvs ''symbol'' of
                  None \<Rightarrow> Some \<lparr> name = n, symbol = None, itemPercentage = p \<rparr>
                | Some (JString s) \<Rightarrow> Some \<lparr> name = n, symbol = Some s, itemPercentage = p \<rparr>
                | Some _ \<Rightarrow> None)
           | _ \<Rightarrow> None)
      | _ \<Rightarrow> None)"

definition parsePortfolio :: "json option \<Rightarrow> PortfolioItem list option" where
  "parsePortfolio j = (case j of Some (JArray js) \<Rightarrow> those (map parseItem js) | _ \<Rightarrow> None)"

text \<open>The request schema: \<open>message\<close> a string of at least one character.\<close>

definition parseChatRequest :: "json \<Rightarrow> (string \<times> PortfolioItem list) option" where
  "parseChatRequest body =
     (case body of
        JObject kvs \<Rightarrow>
          (case (map_of kvs ''message'', parsePortfolio (map_of kvs ''portfolio'')) of
             (Some (JString m), Some p) \<Rightarrow> if length m \<ge> 1 then Some (m, p) else None
           | _ \<Rightarrow> None)
      | _ \<Rightarrow> None)"

text \<open>\<open>responseSchema.safeParse(parsed)\<close>.\<close>

definition parseChatResponse :: "json \<Rightarrow> (string \<times> PortfolioItem list) option" where
  "parseChatResponse parsed =
     (case parsed of
        JObject kvs \<Rightarrow>
          (case (map_of kvs ''reply'', parsePortfolio (map_of kvs ''portfolio'')) of
             (Some (JString r), Some p) \<Rightarrow> Some (r, p)
           | _ \<Rightarrow> None)
      | _ \<Rightarrow> None)"

text \<open>The block after validation: the returned percentages are rescaled when their
  total is positive and more than 0.5 away from 100.\<close>

definition rescale :: "PortfolioItem list \<Rightarrow> PortfolioItem list" where
  "rescale items =
     (if length items > 0 then
        (let total = foldl (\<lambda>s i. s + itemPercentage i) 0 items in
         if total > 0 \<and> \<bar>total - 100\<bar> > 1 / 2 then
           (let scaled = map (\<lambda>i. i\<lparr> itemPercentage :=
                              of_int (Math_round (itemPercentage i / total * 100)) \<rparr>) items;
                diff = 100 - foldl (\<lambda>s i. s + itemPercentage i) 0 scaled
            in if diff \<noteq> 0
               then scaled[0 := (scaled ! 0)\<lparr> itemPercentage := itemPercentage (scaled ! 0) + diff \<rparr>]
               else scaled)
         else items)
      else items)"

text \<open>The model's answer: the call fails, the content is missing or empty, the content
  is text on which \<open>JSON.parse\<close> throws, or it parses to a value.\<close>

datatype ai_reply = AiThrows string | NoContent | NotJson | Json json

datatype chat_response =
    ChatOk json "PortfolioItem list"
  | ChatError nat error_message

definition portfolioChat :: "json \<Rightarrow> ai_reply \<Rightarrow> chat_response" where
  "portfolioChat body ai =
     (case parseChatRequest body of
        None \<Rightarrow> ChatError 500 (MessageOf ZodError)
      | Some (message, portfolio) \<Rightarrow>
          (case ai of
             AiThrows m \<Rightarrow>
               ChatError 500 (if m = [] then Literal ''Failed to process chat''
                              else MessageOf (UpstreamError m))
           | NoContent \<Rightarrow> ChatError 500 (Literal ''No response from AI'')
           | NotJson \<Rightarrow>
               ChatOk (JString ''I had trouble processing that. Could you try rephrasing?'') portfolio
           | Json parsed \<Rightarrow>
               (case parseChatResponse parsed of
                  None \<Rightarrow>
                    (case parsed of
                       JNull \<Rightarrow>
                         ChatError 500 (MessageOf (TypeError ''Cannot read properties of null''))
                     | _ \<Rightarrow>
                         ChatOk (case property parsed ''reply'' of
                                   None \<Rightarrow> JString ''I had trouble updating the portfolio. Please try again.''
                                 | Some r \<Rightarrow>
                                     if truthy (Some r) then r
                                     else JString ''I had trouble updating the portfolio. Please try again.'')
                           portfolio)
                | Some (reply, items) \<Rightarrow> ChatOk (JString reply) (rescale items))))"

section \<open>Token availability (server/routes.ts, POST /api/uniswap/check-tokens)\<close>

text \<open>\<open>toLowerCase\<close> on the ASCII letters (symbols are ASCII tickers).\<close>

definition toLowerChar :: "char \<Rightarrow> char" where
  "toLowerChar c =
     (case map_of (zip ''ABCDEFGHIJKLMNOPQRSTUVWXYZ'' ''abcdefghijklmnopqrstuvwxyz'') c of
        None \<Rightarrow> c | Some l \<Rightarrow> l)"

definition toLowerCase :: "string \<Rightarrow> string" where
  "toLowerCase s = map toLowerChar s"

record ListedToken =
  listedSymbol :: string
  listedAddress :: string
  listedChainId :: int
  listedDecimals :: nat
  listedName :: string

record TokenCheck =
  tcSymbol :: string
  available :: bool
  tcAddress :: "string option"
  tcDecimals :: "nat option"
  tcName :: "string option"

text \<open>\<open>v || null\<close> on a string and on a number.\<close>

definition orNullString :: "string \<Rightarrow> string option" where
  "orNullString v = (if v = [] then None else Some v)"

definition orNullNat :: "nat \<Rightarrow> nat option" where
  "orNullNat v = (if v = 0 then None else Some v)"

definition checkTokens :: "ListedToken list \<Rightarrow> string list \<Rightarrow> TokenCheck list" where
  "checkTokens tokenList symbols =
     (let mainnetTokens = filter (\<lambda>t. listedChainId t = 1) tokenList
      in map (\<lambda>sym.
            case find (\<lambda>t. toLowerCase (listedSymbol t) = toLowerCase sym) mainnetTokens of
              None \<Rightarrow> \<lparr> tcSymbol = sym, available = False, tcAddress = None,
                        tcDecimals = None, tcName = None \<rparr>
            | Some token \<Rightarrow> \<lparr> tcSymbol = sym, available = True,
                        tcAddress = orNullString (listedAddress token),
                        tcDecimals = orNullNat (listedDecimals token),
                        tcName = orNullString (listedName token) \<rparr>) symbols)"

section \<open>Portfolio deployment (client/src/pages/home.tsx, deployPortfolio)\<close>

subsection \<open>BigInt arithmetic\<close>

text \<open>\<open>BigInt(x)\<close> of a number: a \<open>RangeError\<close> unless \<open>x\<close> is an integer.\<close>

definition BigInt :: "real \<Rightarrow> js_exception + int" where
  "BigInt x = (if x = of_int \<lfloor>x\<rfloor> then Inr \<lfloor>x\<rfloor>
               else Inl (RangeError ''The number cannot be converted to a BigInt because it is not an integer''))"

text \<open>\<open>a / b\<close> on BigInts: the quotient truncated toward zero, a \<open>RangeError\<close> for \<open>b = 0n\<close>.\<close>

definition truncDiv :: "int \<Rightarrow> int \<Rightarrow> int" where
  "truncDiv a b = sgn a * sgn b * (\<bar>a\<bar> div \<bar>b\<bar>)"

definition BigInt_div :: "int \<Rightarrow> int \<Rightarrow> js_exception + int" where
  "BigInt_div a b = (if b = 0 then Inl (RangeError ''Division by zero'') else Inr (truncDiv a b))"

text \<open>\<open>(balance * BigInt(item.percentage)) / BigInt(totalPercentage > 0 ? totalPercentage : 100)\<close>.\<close>

definition preliminaryAmount :: "int \<Rightarrow> real \<Rightarrow> real \<Rightarrow> js_exception + int" where
  "preliminaryAmount walletBalance pct totalPct =
     (case BigInt pct of
        Inl e \<Rightarrow> Inl e
      | Inr p \<Rightarrow>
          (case BigInt (if totalPct > 0 then totalPct else 100) of
             Inl e \<Rightarrow> Inl e
           | Inr d \<Rightarrow> BigInt_div (walletBalance * p) d))"

text \<open>\<open>(usableBalance * BigInt(item.percentage)) / BigInt(totalPercentage > 0 ? totalPercentage : 100)\<close>.\<close>

definition amountIn :: "int \<Rightarrow> real \<Rightarrow> real \<Rightarrow> js_exception + int" where
  "amountIn usableBalance pct totalPct =
     (case BigInt pct of
        Inl e \<Rightarrow> Inl e
      | Inr p \<Rightarrow>
          (case BigInt (if totalPct > 0 then totalPct else 100) of
             Inl e \<Rightarrow> Inl e
           | Inr d \<Rightarrow> BigInt_div (usableBalance * p) d))"

text \<open>\<open>feeData.gasPrice || parseEther("0.00000005")\<close>: a missing or zero price gives 50 gwei.\<close>

definition gasPriceOrDefault :: "int option \<Rightarrow> int" where
  "gasPriceOrDefault g = (case g of None \<Rightarrow> 50000000000 | Some v \<Rightarrow> if v = 0 then 50000000000 else v)"

text \<open>\<open>gasEstimate * gasPrice * BigInt(120) / BigInt(100)\<close>.\<close>

definition gasCost :: "int \<Rightarrow> int \<Rightarrow> int" where
  "gasCost gasEstimate gasPrice = truncDiv (gasEstimate * gasPrice * 120) 100"

subsection \<open>The wallet and the chain\<close>

text \<open>
  What the run reads from outside. The loop over the available tokens reads the
  balance, the gas estimate, the gas price and the outcome of the swap at most once
  per pass, so each is given by the number of the pass (and the arguments of the call).
  \<open>estimateGas\<close> is \<open>None\<close> when the estimation throws; \<open>swapConfirmed\<close> is false when the
  transaction is rejected or reverts; \<open>checkTokensResponse\<close> is \<open>None\<close> when the request
  to the check-tokens route fails. The provider's other calls (network, signer, balance,
  fee data) are taken to return.
\<close>

record chain =
  checkTokensResponse :: "string list \<Rightarrow> TokenCheck list option"
  chainId :: int
  initialBalance :: int
  balanceAt :: "nat \<Rightarrow> int"
  estimateGas :: "nat \<Rightarrow> string \<Rightarrow> int \<Rightarrow> int option"
  gasPriceAt :: "nat \<Rightarrow> int option"
  swapConfirmed :: "nat \<Rightarrow> string \<Rightarrow> int \<Rightarrow> bool"

datatype toast =
    NoPortfolio
  | WalletNotConnected
  | Skipped string
  | NotEnoughGas string int
  | SwapFailed string

text \<open>
  What a run leaves behind: the last status set (\<open>None\<close> when none was set), the
  toasts, the token checks shown, the gas estimations requested and the swap
  transactions submitted (token symbol and amount, in order), and the count of
  confirmed swaps.
\<close>

record run =
  deployStatus :: "error_message option"
  toasts :: "toast list"
  tokenChecks :: "TokenCheck list option"
  gasEstimates :: "(string \<times> int) list"
  swaps :: "(string \<times> int) list"
  successCount :: nat

definition SEPOLIA_CHAIN_ID :: int where
  "SEPOLIA_CHAIN_ID = 11155111"

text \<open>\<open>i.symbol || i.name\<close>.\<close>

definition symbolOrName :: "PortfolioItem \<Rightarrow> string" where
  "symbolOrName i = (case symbol i of None \<Rightarrow> name i | Some s \<Rightarrow> if s = [] then name i else s)"

text \<open>\<open>portfolio.items.find((i) => (i.symbol || i.name).toLowerCase() === ticker.toLowerCase())\<close>.\<close>

definition findItem :: "PortfolioItem list \<Rightarrow> string \<Rightarrow> PortfolioItem option" where
  "findItem items ticker = find (\<lambda>i. toLowerCase (symbolOrName i) = toLowerCase ticker) items"

definition totalPercentage :: "PortfolioItem list \<Rightarrow> TokenCheck list \<Rightarrow> real" where
  "totalPercentage items availableTokens =
     foldl (\<lambda>sum t. sum + (case findItem items (tcSymbol t) of
                              None \<Rightarrow> 0 | Some item \<Rightarrow> itemPercentage item)) 0 availableTokens"

text \<open>Decimal digits of a number, for the status messages.\<close>

fun showNat :: "nat \<Rightarrow> string" where
  "showNat n = (if n < 10 then [''0123456789'' ! n]
                else showNat (n div 10) @ [''0123456789'' ! (n mod 10)])"

declare showNat.simps [simp del]

text \<open>\<open>xs.join(", ")\<close>.\<close>

fun join :: "string list \<Rightarrow> string" where
  "join [] = []"
| "join [x] = x"
| "join (x # y # ys) = x @ '', '' @ join (y # ys)"

subsection \<open>The loop over the available tokens\<close>

datatype control = Next | Halt | Throw js_exception

text \<open>One pass for \<open>token\<close>, the \<open>k\<close>-th of the available tokens. \<open>Next\<close> is the end of the
  pass or a \<open>continue\<close>, \<open>Halt\<close> the \<open>break\<close>, \<open>Throw\<close> an exception that leaves the loop.\<close>

definition pass :: "chain \<Rightarrow> PortfolioItem list \<Rightarrow> real \<Rightarrow> nat \<Rightarrow> TokenCheck \<Rightarrow> run \<Rightarrow> control \<times> run" where
  "pass env items totalPct k token st =
     (case findItem items (tcSymbol token) of
        None \<Rightarrow> (Next, st)
      | Some item \<Rightarrow>
          (let walletBalance = balanceAt env k in
           case preliminaryAmount walletBalance (itemPercentage item) totalPct of
             Inl e \<Rightarrow> (Throw e, st)
           | Inr preliminary \<Rightarrow>
               if preliminary = 0 then (Next, st)
               else
                 (let tokenOut = (case tcAddress token of None \<Rightarrow> [] | Some a \<Rightarrow> a);
                      st1 = st\<lparr> gasEstimates := gasEstimates st @ [(tcSymbol token, preliminary)] \<rparr>
                  in case estimateGas env k tokenOut preliminary of
                       None \<Rightarrow> (Next, st1\<lparr> toasts := toasts st1 @ [Skipped (tcSymbol token)] \<rparr>)
                     | Some gasEstimate \<Rightarrow>
                         (let gasPrice = gasPriceOrDefault (gasPriceAt env k);
                              cost = gasCost gasEstimate gasPrice
                          in if cost \<ge> walletBalance
                             then (Halt, st1\<lparr> toasts := toasts st1 @ [NotEnoughGas (tcSymbol token) cost] \<rparr>)
                             else
                               (let usableBalance = walletBalance - cost in
                                case amountIn usableBalance (itemPercentage item) totalPct of
                                  Inl e \<Rightarrow> (Throw e, st1)
                                | Inr amount \<Rightarrow>
                                    if amount = 0 then (Next, st1)
                                    else
                                      (let st2 = st1\<lparr> swaps := swaps st1 @ [(tcSymbol token, amount)] \<rparr> in
                                       if swapConfirmed env k tokenOut amount
                                       then (Next, st2\<lparr> successCount := Suc (successCount st2) \<rparr>)
                                       else (Next, st2\<lparr> toasts := toasts st2 @ [SwapFailed (tcSymbol token)] \<rparr>)))))))"

datatype outcome = Completed | Halted | Threw js_exception

fun deployLoop :: "chain \<Rightarrow> PortfolioItem list \<Rightarrow> real \<Rightarrow> nat \<Rightarrow> TokenCheck list \<Rightarrow> run \<Rightarrow> outcome \<times> run" where
  "deployLoop env items totalPct k [] st = (Completed, st)"
| "deployLoop env items totalPct k (token # rest) st =
     (case pass env items totalPct k token st of
        (Next, st') \<Rightarrow> deployLoop env items totalPct (Suc k) rest st'
      | (Halt, st') \<Rightarrow> (Halted, st')
      | (Throw e, st') \<Rightarrow> (Threw e, st'))"

subsection \<open>The run\<close>

definition emptyRun :: run where
  "emptyRun = \<lparr> deployStatus = None, toasts = [], tokenChecks = None,
                gasEstimates = [], swaps = [], successCount = 0 \<rparr>"

text \<open>The status that names the unavailable assets.\<close>

definition missingStatus :: "TokenCheck list \<Rightarrow> string" where
  "missingStatus missing =
     showNat (length missing) @ '' asset'' @ (if length missing > 1 then ''s'' else []) @
     '' not available on Uniswap: '' @ join (map tcSymbol missing)"

definition deployPortfolio :: "chain \<Rightarrow> PortfolioItem list option \<Rightarrow> string option \<Rightarrow> run" where
  "deployPortfolio env portfolio connectedAddress =
     (case portfolio of
        None \<Rightarrow> emptyRun\<lparr> toasts := [NoPortfolio] \<rparr>
      | Some items \<Rightarrow>
          if length items = 0 then emptyRun\<lparr> toasts := [NoPortfolio] \<rparr>
          else if connectedAddress = None \<or> connectedAddress = Some []
          then emptyRun\<lparr> toasts := [WalletNotConnected] \<rparr>
          else
            (let symbols = filter (\<lambda>s. s \<noteq> []) (map symbolOrName items) in
             case checkTokensResponse env symbols of
               None \<Rightarrow> emptyRun\<lparr> deployStatus := Some (MessageOf (UpstreamError ''check-tokens'')) \<rparr>
             | Some checks \<Rightarrow>
                 (let st = emptyRun\<lparr> tokenChecks := Some checks \<rparr>;
                      missing = filter (\<lambda>t. \<not> available t) checks
                  in if length missing > 0
                     then st\<lparr> deployStatus := Some (Literal (missingStatus missing)) \<rparr>
                     else if chainId env \<noteq> SEPOLIA_CHAIN_ID
                     then st\<lparr> deployStatus :=
                            Some (Literal ''Please switch MetaMask to Sepolia testnet before deploying.'') \<rparr>
                     else if initialBalance env = 0
                     then st\<lparr> deployStatus :=
                            Some (Literal ''Your wallet has 0 ETH. You need ETH to swap on Uniswap.'') \<rparr>
                     else
                       (let availableTokens =
                              filter (\<lambda>t. available t \<and> tcAddress t \<noteq> None \<and> tcAddress t \<noteq> Some []) checks;
                            totalPct = totalPercentage items availableTokens
                        in case deployLoop env items totalPct 0 availableTokens st of
                             (Threw e, st') \<Rightarrow> st'\<lparr> deployStatus := Some (MessageOf e) \<rparr>
                           | (_, st') \<Rightarrow>
                               st'\<lparr> deployStatus := Some (Literal
                                 (if successCount st' > 0
                                  then ''Portfolio deployed! '' @ showNat (successCount st') @ ''/'' @
                                       showNat (length availableTokens) @ '' swaps completed.''
                                  else ''No swaps were completed. Transactions may have been rejected.'')) \<rparr>))))"

section \<open>Notions used in the statements\<close>

text \<open>The rounded shares of a weight list before the correction of the first item, as
  the \<open>map\<close> callback of the wallet route computes them.\<close>

definition shares :: "real list \<Rightarrow> int list" where
  "shares ws = map (\<lambda>w. if sum_list ws > 0 then Math_round (w / sum_list ws * 100)
                         else Math_round (100 / of_nat (length ws))) ws"


text \<open>Sample data for the concrete instances.\<close>

definition sampleToken :: "string \<Rightarrow> real \<Rightarrow> RawToken" where
  "sampleToken s usd = \<lparr> tokenName = s, tokenSymbol = s, balance = ToFixed 1 4, balanceUsd = usd \<rparr>"

definition sampleItem :: "string \<Rightarrow> real \<Rightarrow> PortfolioItem" where
  "sampleItem s p = \<lparr> name = s, symbol = None, itemPercentage = p \<rparr>"

definition symbolItem :: "string \<Rightarrow> real \<Rightarrow> PortfolioItem" where
  "symbolItem s p = \<lparr> name = s, symbol = Some s, itemPercentage = p \<rparr>"

definition sampleWallet :: AddressInfo where
  "sampleWallet = \<lparr> ETH = Some \<lparr> ethBalance = Some 2, ethRate = Some 1500 \<rparr>,
     tokens = Some
       [\<lparr> tokenInfo = Some \<lparr> infoName = Some ''Tether'', infoSymbol = Some ''USDT'', infoDecimals = Some 2,
            infoType = None, infoRate = Some 1 \<rparr>, heldBalance = Some 500000 \<rparr>,
        \<lparr> tokenInfo = Some \<lparr> infoName = Some ''Dai'', infoSymbol = Some ''DAI'', infoDecimals = Some 1,
            infoType = Some ''ERC-20'', infoRate = Some 1 \<rparr>, heldBalance = Some 10000 \<rparr>,
        \<lparr> tokenInfo = Some \<lparr> infoName = Some ''Kitty'', infoSymbol = Some ''CK'', infoDecimals = None,
            infoType = Some ''ERC-721'', infoRate = Some 9000 \<rparr>, heldBalance = Some 1 \<rparr>,
        \<lparr> tokenInfo = Some \<lparr> infoName = Some ''Uniswap'', infoSymbol = Some ''UNI'', infoDecimals = Some 0,
            infoType = None, infoRate = Some 5 \<rparr>, heldBalance = Some 100 \<rparr>,
        \<lparr> tokenInfo = Some \<lparr> infoName = Some ''ChainLink'', infoSymbol = Some ''LINK'', infoDecimals = Some 0,
            infoType = None, infoRate = Some 10 \<rparr>, heldBalance = Some 20 \<rparr>,
        \<lparr> tokenInfo = Some \<lparr> infoName = Some ''Maker'', infoSymbol = Some ''MKR'', infoDecimals = Some 0,
            infoType = None, infoRate = Some 4000 \<rparr>, heldBalance = Some 1 \<rparr>,
        \<lparr> tokenInfo = Some \<lparr> infoName = Some ''Dust'', infoSymbol = Some ''DUST'', infoDecimals = Some 0,
            infoType = None, infoRate = None \<rparr>, heldBalance = Some 7 \<rparr>],
     error = None \<rparr>"

definition sampleServer :: server where
  "sampleServer = \<lparr> explorer = (\<lambda>address. Body sampleWallet), dbUp = True, lookups = [],
                    walletHistory = [] \<rparr>"

definition vitalik :: string where
  "vitalik = ''0xD8dA6BF26964aF9D7eEd9e03E53415D37aA96045''"

definition sampleBody :: json where
  "sampleBody = JObject
     [(''message'', JString ''rebalance''),
      (''portfolio'', JArray
         [JObject [(''name'', JString ''Bitcoin''), (''symbol'', JString ''BTC''), (''percentage'', JNumber 60)],
          JObject [(''name'', JString ''Ethereum''), (''percentage'', JNumber 40)]])]"

definition samplePortfolio :: "PortfolioItem list" where
  "samplePortfolio = [\<lparr> name = ''Bitcoin'', symbol = Some ''BTC'', itemPercentage = 60 \<rparr>,
                      \<lparr> name = ''Ethereum'', symbol = None, itemPercentage = 40 \<rparr>]"


text \<open>A token list with two mainnet tokens and one of another chain, served by the
  check-tokens route.\<close>

definition sampleChecks :: "string list \<Rightarrow> TokenCheck list option" where
  "sampleChecks symbols = Some (checkTokens
     [\<lparr> listedSymbol = ''UNI'', listedAddress = ''0x1f98'', listedChainId = 1, listedDecimals = 18, listedName = ''Uniswap'' \<rparr>,
      \<lparr> listedSymbol = ''LINK'', listedAddress = ''0x5149'', listedChainId = 1, listedDecimals = 18, listedName = ''ChainLink'' \<rparr>,
      \<lparr> listedSymbol = ''DOGE'', listedAddress = ''0xbA2a'', listedChainId = 56, listedDecimals = 8, listedName = ''Dogecoin'' \<rparr>]
     symbols)"

definition sampleChain :: chain where
  "sampleChain = \<lparr> checkTokensResponse = sampleChecks, chainId = 11155111,
     initialBalance = 1000000, balanceAt = (\<lambda>k. 1000000),
     estimateGas = (\<lambda>k tokenOut amount. Some 21000), gasPriceAt = (\<lambda>k. None),
     swapConfirmed = (\<lambda>k tokenOut amount. True) \<rparr>"

definition uniCheck :: TokenCheck where
  "uniCheck = \<lparr> tcSymbol = ''uni'', available = True, tcAddress = Some ''0x1f98'',
                tcDecimals = Some 18, tcName = Some ''Uniswap'' \<rparr>"

definition linkCheck :: TokenCheck where
  "linkCheck = \<lparr> tcSymbol = ''link'', available = True, tcAddress = Some ''0x5149'',
                 tcDecimals = Some 18, tcName = Some ''ChainLink'' \<rparr>"

section \<open>Basic facts\<close>

lemma foldl_plus_sum_list:
  fixes f :: "'a \<Rightarrow> 'b::comm_monoid_add"
  shows "foldl (\<lambda>s t. s + f t) a xs = a + sum_list (map f xs)"
  by (induction xs arbitrary: a) (simp_all add: add.assoc)

lemma sum_list_of_int:
  "sum_list (map (\<lambda>x. real_of_int (f x)) xs) = real_of_int (sum_list (map f xs))"
  by (induction xs) simp_all

lemma percentage_withPercentage [simp]: "percentage (withPercentage t p) = p"
  by (simp add: withPercentage_def RawToken.defs WalletToken.defs)

lemma balanceUsd_withPercentage [simp]: "balanceUsd (withPercentage t p) = balanceUsd t"
  by (simp add: withPercentage_def RawToken.defs WalletToken.defs)

lemma tokenName_withPercentage [simp]: "tokenName (withPercentage t p) = tokenName t"
  by (simp add: withPercentage_def RawToken.defs WalletToken.defs)

lemma tokenSymbol_withPercentage [simp]: "tokenSymbol (withPercentage t p) = tokenSymbol t"
  by (simp add: withPercentage_def RawToken.defs WalletToken.defs)

lemma balance_withPercentage [simp]: "balance (withPercentage t p) = balance t"
  by (simp add: withPercentage_def RawToken.defs WalletToken.defs)

section \<open>Percentages of the wallet route\<close>

lemma map_percentage_topTokens:
  "map percentage (topTokens ts) =
     (let ps = shares (map balanceUsd ts)
      in if sum_list ps \<noteq> 100 \<and> ps \<noteq> [] then (hd ps + (100 - sum_list ps)) # tl ps else ps)"
proof (cases ts)
  case Nil
  then show ?thesis by (simp add: topTokens_def shares_def)
next
  case (Cons t ts')
  then show ?thesis
    by (simp add: topTokens_def shares_def Let_def foldl_plus_sum_list comp_def)
qed

lemma length_topTokens: "length (topTokens ts) = length ts"
  by (simp add: topTokens_def Let_def)


lemma map_balanceUsd_topTokens: "map balanceUsd (topTokens ts) = map balanceUsd ts"
  by (cases ts) (simp_all add: topTokens_def Let_def comp_def)


section \<open>Rescaling of the chat route\<close>




lemma rescale_unchanged:
  "\<not> (sum_list (map itemPercentage items) > 0 \<and> \<bar>sum_list (map itemPercentage items) - 100\<bar> > 1 / 2)
   \<Longrightarrow> rescale items = items"
  by (auto simp: rescale_def Let_def foldl_plus_sum_list)




section \<open>Claims about normalization\<close>











text \<open>
  C3. A token list whose weights are integers summing to exactly 100 gets these integers
  back as its percentages; on the chat route such a list is returned unchanged.
\<close>

theorem normalization_idempotent:
  assumes "sum_list ps = 100"
  shows "(map balanceUsd ts = map of_int ps \<longrightarrow> map percentage (topTokens ts) = ps) \<and>
         (map itemPercentage items = map of_int ps \<longrightarrow> rescale items = items)"
proof -
  have tot: "sum_list (map real_of_int ps) = 100"
    using assms by (simp add: sum_list_of_int [of "\<lambda>x. x", simplified])
  have "shares (map real_of_int ps) = ps"
    by (simp add: shares_def tot Math_round_def map_idI)
  then have "map balanceUsd ts = map of_int ps \<Longrightarrow> map percentage (topTokens ts) = ps"
    using assms by (simp add: map_percentage_topTokens)
  moreover have "map itemPercentage items = map of_int ps \<Longrightarrow> rescale items = items"
    using tot by (simp add: rescale_unchanged)
  ultimately show ?thesis by blast
qed

theorem normalization_idempotent_witness:
  "sum_list [70, 20, 10 :: int] = 100 \<and>
   map balanceUsd [sampleToken ''A'' 70, sampleToken ''B'' 20, sampleToken ''C'' 10] = map of_int [70, 20, 10] \<and>
   map percentage (topTokens [sampleToken ''A'' 70, sampleToken ''B'' 20, sampleToken ''C'' 10]) = [70, 20, 10] \<and>
   map itemPercentage [sampleItem ''A'' 70, sampleItem ''B'' 20, sampleItem ''C'' 10] = map of_int [70, 20, 10] \<and>
   rescale [sampleItem ''A'' 70, sampleItem ''B'' 20, sampleItem ''C'' 10]
     = [sampleItem ''A'' 70, sampleItem ''B'' 20, sampleItem ''C'' 10]"
proof -
  have s: "sum_list [70, 20, 10 :: int] = 100" by simp
  have a: "map balanceUsd [sampleToken ''A'' 70, sampleToken ''B'' 20, sampleToken ''C'' 10]
             = map of_int [70, 20, 10]"
    by (simp add: sampleToken_def)
  have b: "map itemPercentage [sampleItem ''A'' 70, sampleItem ''B'' 20, sampleItem ''C'' 10]
             = map of_int [70, 20, 10]"
    by (simp add: sampleItem_def)
  from normalization_idempotent [OF s] a b show ?thesis by simp
qed

section \<open>Claims about the chat route\<close>

lemma parseChatRequest_sampleBody: "parseChatRequest sampleBody = Some (''rebalance'', samplePortfolio)"
  by (simp add: parseChatRequest_def sampleBody_def parsePortfolio_def parseItem_def samplePortfolio_def)


text \<open>
  What the route does for a malformed reply apart from the two cases of C4: text that
  does not parse, and a value other than \<open>null\<close> that fails validation, are answered with
  the portfolio of the request; the reply is a non-empty string when the value has no
  \<open>reply\<close> property or a string there.
\<close>

lemma malformed_reply_keeps_portfolio:
  assumes "parseChatRequest body = Some (msg, portfolio)"
  shows "portfolioChat body NotJson
           = ChatOk (JString ''I had trouble processing that. Could you try rephrasing?'') portfolio"
    and "parseChatResponse parsed = None \<Longrightarrow> parsed \<noteq> JNull \<Longrightarrow>
           \<exists>r. portfolioChat body (Json parsed) = ChatOk r portfolio"
    and "parseChatResponse parsed = None \<Longrightarrow> parsed \<noteq> JNull \<Longrightarrow>
           property parsed ''reply'' = None \<or> (\<exists>s. property parsed ''reply'' = Some (JString s)) \<Longrightarrow>
           \<exists>s. s \<noteq> [] \<and> portfolioChat body (Json parsed) = ChatOk (JString s) portfolio"
  using assms by (cases parsed; auto simp: portfolioChat_def split: option.splits)+

text \<open>
  C4 fails on the code. A reply that parses but fails validation is answered with
  \<open>parsed.reply || "..."\<close>, read from the unvalidated value: for the JSON value \<open>null\<close>
  the property access throws, and the route answers with status 500 and neither reply nor
  portfolio; for a reply that is not a string (here the number 42) the route passes it
  on, so the reply is not a string. The sibling branch for text that does not parse
  returns the portfolio with a fixed message, as \<open>malformed_reply_keeps_portfolio\<close> shows.
\<close>

theorem malformed_reply_not_handled:
  "parseChatResponse JNull = None \<and>
   portfolioChat sampleBody (Json JNull)
     = ChatError 500 (MessageOf (TypeError ''Cannot read properties of null'')) \<and>
   parseChatResponse (JObject [(''reply'', JNumber 42), (''portfolio'', JString ''none'')]) = None \<and>
   portfolioChat sampleBody (Json (JObject [(''reply'', JNumber 42), (''portfolio'', JString ''none'')]))
     = ChatOk (JNumber 42) samplePortfolio"
  by (simp add: portfolioChat_def parseChatRequest_sampleBody parseChatResponse_def parsePortfolio_def)




section \<open>Claims about the wallet route\<close>

lemma matchesAddress_vitalik: "matchesAddress vitalik"
  by (simp add: matchesAddress_def vitalik_def isHexDigit_def)

lemma not_matchesAddress_name: "\<not> matchesAddress ''Elon Musk''"
  by (simp add: matchesAddress_def)

text \<open>
  C6. A request whose body has no \<open>address\<close> string matching the pattern is answered with
  status 400, and the server is left as it was: the explorer was not asked and no history
  record was stored. An address that matches passes validation, and the explorer is
  asked about it.
\<close>

theorem wallet_address_validation:
  "(\<not> (\<exists>s. property body ''address'' = Some (JString s) \<and> matchesAddress s) \<longrightarrow>
      walletLookup body srv = (WalletError 400 (Literal ''Invalid Ethereum address format''), srv)) \<and>
   (property body ''address'' = Some (JString s) \<and> matchesAddress s \<longrightarrow>
      parseWalletInput body = Inr s \<and>
      lookups (snd (walletLookup body srv)) = s # lookups srv)"
proof (intro conjI impI)
  assume "\<not> (\<exists>s. property body ''address'' = Some (JString s) \<and> matchesAddress s)"
  then have "parseWalletInput body = Inl ZodError"
    by (cases body) (auto simp: parseWalletInput_def split: option.splits json.splits)
  then show "walletLookup body srv = (WalletError 400 (Literal ''Invalid Ethereum address format''), srv)"
    by (simp add: walletLookup_def)
next
  assume a: "property body ''address'' = Some (JString s) \<and> matchesAddress s"
  then show p: "parseWalletInput body = Inr s"
    by (cases body) (auto simp: parseWalletInput_def)
  then show "lookups (snd (walletLookup body srv)) = s # lookups srv"
    by (auto simp: walletLookup_def Let_def split: fetch_result.splits option.splits)
qed

theorem wallet_address_validation_witness:
  "\<not> (\<exists>s. property (JObject [(''address'', JString ''Elon Musk'')]) ''address'' = Some (JString s) \<and> matchesAddress s) \<and>
   walletLookup (JObject [(''address'', JString ''Elon Musk'')]) sampleServer
     = (WalletError 400 (Literal ''Invalid Ethereum address format''), sampleServer) \<and>
   property (JObject [(''address'', JString vitalik)]) ''address'' = Some (JString vitalik) \<and>
   matchesAddress vitalik \<and>
   parseWalletInput (JObject [(''address'', JString vitalik)]) = Inr vitalik \<and>
   lookups (snd (walletLookup (JObject [(''address'', JString vitalik)]) sampleServer)) = [vitalik]"
proof -
  have n: "\<not> (\<exists>s. property (JObject [(''address'', JString ''Elon Musk'')]) ''address'' = Some (JString s) \<and> matchesAddress s)"
    using not_matchesAddress_name by simp
  have y: "property (JObject [(''address'', JString vitalik)]) ''address'' = Some (JString vitalik)"
    by simp
  have l: "lookups sampleServer = []" by (simp add: sampleServer_def)
  from wallet_address_validation [where body = "JObject [(''address'', JString ''Elon Musk'')]" and srv = sampleServer] n
  have "walletLookup (JObject [(''address'', JString ''Elon Musk'')]) sampleServer
     = (WalletError 400 (Literal ''Invalid Ethereum address format''), sampleServer)" by blast
  moreover from wallet_address_validation [where body = "JObject [(''address'', JString vitalik)]" and s = vitalik and srv = sampleServer]
    y matchesAddress_vitalik
  have "parseWalletInput (JObject [(''address'', JString vitalik)]) = Inr vitalik"
    and "lookups (snd (walletLookup (JObject [(''address'', JString vitalik)]) sampleServer)) = [vitalik]"
    unfolding l by blast+
  ultimately show ?thesis using n y matchesAddress_vitalik by blast
qed

lemma insort_key_takeWhile:
  fixes f :: "'a \<Rightarrow> 'b::linorder"
  shows "insort_key f x ys = takeWhile (\<lambda>y. f y < f x) ys @ x # dropWhile (\<lambda>y. f y < f x) ys"
  by (induction ys) auto

lemma length_takeWhile_le_filter: "length (takeWhile P xs) \<le> length (filter P xs)"
  by (induction xs) auto

lemma head_in_take_sort_key:
  fixes f :: "'a \<Rightarrow> 'b::linorder"
  assumes "length (filter (\<lambda>y. f y < f x) xs) < n"
  shows "x \<in> set (take n (sort_key f (x # xs)))"
proof -
  let ?ys = "sort_key f xs"
  let ?pre = "takeWhile (\<lambda>y. f y < f x) ?ys"
  have "length ?pre \<le> length (filter (\<lambda>y. f y < f x) ?ys)"
    by (rule length_takeWhile_le_filter)
  also have "\<dots> = length (filter (\<lambda>y. f y < f x) xs)"
    by (simp add: filter_sort)
  finally have "length ?pre < n" using assms by simp
  moreover have "sort_key f (x # xs) = ?pre @ x # dropWhile (\<lambda>y. f y < f x) ?ys"
    by (simp add: insort_key_takeWhile)
  ultimately show ?thesis by (simp add: take_Cons')
qed

lemma withPercentage_update:
  "(withPercentage t p)\<lparr> percentage := q \<rparr> = withPercentage t q"
  by (simp add: withPercentage_def RawToken.defs WalletToken.defs)

lemma topTokens_member:
  assumes "t \<in> set ts"
  shows "\<exists>p. withPercentage t p \<in> set (topTokens ts)"
proof -
  from assms obtain i where i: "i < length ts" "ts ! i = t"
    by (auto simp: in_set_conv_nth)
  have "\<exists>p. topTokens ts ! i = withPercentage t p"
    using i by (cases i) (auto simp: topTokens_def Let_def withPercentage_update nth_list_update)
  moreover have "topTokens ts ! i \<in> set (topTokens ts)"
    using i(1) by (simp add: length_topTokens)
  ultimately show ?thesis by metis
qed

lemma sorted_top5Raw: "sorted_wrt (\<lambda>a b. balanceUsd b \<le> balanceUsd a) (top5Raw raw)"
proof -
  have "sorted (map (\<lambda>t. - balanceUsd t) (sort_key (\<lambda>t. - balanceUsd t) raw))"
    by (rule sorted_sort_key)
  then have "sorted_wrt (\<lambda>a b. balanceUsd b \<le> balanceUsd a) (sort_key (\<lambda>t. - balanceUsd t) raw)"
    by (simp add: sorted_wrt_map)
  then show ?thesis
    unfolding top5Raw_def by (rule sorted_wrt_take)
qed

lemma sorted_walletTokens:
  "sorted_wrt (\<lambda>a b. balanceUsd b \<le> balanceUsd a) (walletTokens data)"
proof -
  have "sorted_wrt (\<lambda>a b. b \<le> a) (map balanceUsd (top5Raw (rawTokens data)))"
    using sorted_top5Raw [of "rawTokens data"] by (simp add: sorted_wrt_map)
  then have "sorted_wrt (\<lambda>a b. b \<le> a) (map balanceUsd (walletTokens data))"
    by (simp add: walletTokens_def map_balanceUsd_topTokens)
  then show ?thesis by (simp add: sorted_wrt_map)
qed

lemma length_walletTokens: "length (walletTokens data) \<le> 5"
  by (simp add: walletTokens_def length_topTokens top5Raw_def)

lemma eth_in_walletTokens:
  assumes "ETH data = Some e"
    and "length (filter (\<lambda>t. balanceUsd (ethEntry e) < balanceUsd t) (rawTokens data)) < 5"
  shows "\<exists>p. withPercentage (ethEntry e) p \<in> set (walletTokens data)"
proof -
  obtain rest where raw: "rawTokens data = ethEntry e # rest"
    using assms(1) by (simp add: rawTokens_def)
  have "length (filter (\<lambda>y. - balanceUsd y < - balanceUsd (ethEntry e)) rest) < 5"
    using assms(2) by (simp add: raw)
  then have "ethEntry e \<in> set (top5Raw (rawTokens data))"
    unfolding raw top5Raw_def by (rule head_in_take_sort_key)
  then show ?thesis unfolding walletTokens_def by (rule topTokens_member)
qed

lemma rawTokens_sampleWallet:
  "map (\<lambda>t. (tokenSymbol t, balanceUsd t)) (rawTokens sampleWallet) =
     [(''ETH'', 3000), (''USDT'', 5000), (''DAI'', 1000), (''UNI'', 500), (''LINK'', 200), (''MKR'', 4000), (''DUST'', 0)]"
  by (simp add: rawTokens_def sampleWallet_def ethEntry_def tokenEntry_def orZero_def Math_round_def
      pow10_def)

lemma walletTokens_sampleWallet:
  "map (\<lambda>t. (tokenSymbol t, balanceUsd t, percentage t)) (walletTokens sampleWallet) =
     [(''USDT'', 5000, 37), (''MKR'', 4000, 30), (''ETH'', 3000, 22), (''DAI'', 1000, 7), (''UNI'', 500, 4)]"
  by (simp add: walletTokens_def top5Raw_def topTokens_def rawTokens_def sampleWallet_def ethEntry_def
      tokenEntry_def orZero_def Math_round_def pow10_def)

lemma walletLookup_sample:
  "walletLookup (JObject [(''address'', JString vitalik)]) sampleServer =
    (WalletOk vitalik (walletTokens sampleWallet),
     sampleServer\<lparr> lookups := [vitalik], walletHistory := [(vitalik, walletTokens sampleWallet)] \<rparr>)"
  using matchesAddress_vitalik
  by (simp add: walletLookup_def parseWalletInput_def sampleServer_def sampleWallet_def)

text \<open>
  C7. A successful wallet lookup returns at most five tokens, in descending order of USD
  balance. When the explorer's answer has an ETH entry (as it has for a positive ETH
  balance) and fewer than five of the listed tokens have a USD balance above that of
  ETH, the answer contains the entry named Ethereum with symbol ETH.
\<close>

theorem wallet_top5_with_eth:
  assumes "walletLookup body srv = (WalletOk a toks, srv')"
  shows "length toks \<le> 5 \<and>
         sorted_wrt (\<lambda>x y. balanceUsd y \<le> balanceUsd x) toks \<and>
         (\<forall>data e. explorer srv a = Body data \<and> ETH data = Some e \<and>
            length (filter (\<lambda>t. balanceUsd (ethEntry e) < balanceUsd t) (rawTokens data)) < 5 \<longrightarrow>
            (\<exists>t \<in> set toks. tokenName t = ''Ethereum'' \<and> tokenSymbol t = ''ETH'' \<and>
               balanceUsd t = balanceUsd (ethEntry e)))"
proof -
  from assms obtain data where d: "explorer srv a = Body data" "toks = walletTokens data"
    by (auto simp: walletLookup_def Let_def split: sum.splits fetch_result.splits option.splits if_splits)
  have "\<exists>t \<in> set toks. tokenName t = ''Ethereum'' \<and> tokenSymbol t = ''ETH'' \<and>
               balanceUsd t = balanceUsd (ethEntry e)"
    if "explorer srv a = Body data'" "ETH data' = Some e"
      "length (filter (\<lambda>t. balanceUsd (ethEntry e) < balanceUsd t) (rawTokens data')) < 5"
    for data' e
  proof -
    from that(1) d(1) have "data' = data" by simp
    with eth_in_walletTokens [of data e] that(2,3) d(2)
    obtain p where "withPercentage (ethEntry e) p \<in> set toks" by auto
    moreover have "tokenName (withPercentage (ethEntry e) p) = ''Ethereum''"
      "tokenSymbol (withPercentage (ethEntry e) p) = ''ETH''"
      by (simp_all add: ethEntry_def Let_def)
    ultimately show ?thesis by force
  qed
  with d(2) length_walletTokens [of data] sorted_walletTokens [of data] show ?thesis by blast
qed

theorem wallet_top5_with_eth_witness:
  "walletLookup (JObject [(''address'', JString vitalik)]) sampleServer =
    (WalletOk vitalik (walletTokens sampleWallet),
     sampleServer\<lparr> lookups := [vitalik], walletHistory := [(vitalik, walletTokens sampleWallet)] \<rparr>) \<and>
   map (\<lambda>t. (tokenSymbol t, balanceUsd t, percentage t)) (walletTokens sampleWallet) =
     [(''USDT'', 5000, 37), (''MKR'', 4000, 30), (''ETH'', 3000, 22), (''DAI'', 1000, 7), (''UNI'', 500, 4)] \<and>
   length (walletTokens sampleWallet) \<le> 5 \<and>
   sorted_wrt (\<lambda>x y. balanceUsd y \<le> balanceUsd x) (walletTokens sampleWallet) \<and>
   length (filter (\<lambda>t. balanceUsd (ethEntry \<lparr> ethBalance = Some 2, ethRate = Some 1500 \<rparr>) < balanceUsd t)
     (rawTokens sampleWallet)) < 5 \<and>
   (\<exists>t \<in> set (walletTokens sampleWallet). tokenName t = ''Ethereum'' \<and> tokenSymbol t = ''ETH'' \<and>
       balanceUsd t = balanceUsd (ethEntry \<lparr> ethBalance = Some 2, ethRate = Some 1500 \<rparr>))"
proof -
  let ?e = "\<lparr> ethBalance = Some 2, ethRate = Some 1500 \<rparr>"
  have x: "explorer sampleServer vitalik = Body sampleWallet" by (simp add: sampleServer_def)
  have e: "ETH sampleWallet = Some ?e" by (simp add: sampleWallet_def)
  have u: "balanceUsd (ethEntry ?e) = 3000"
    by (simp add: ethEntry_def orZero_def Math_round_def)
  have r: "length (filter (\<lambda>t. balanceUsd (ethEntry ?e) < balanceUsd t) (rawTokens sampleWallet)) < 5"
    unfolding u
    by (simp add: rawTokens_def sampleWallet_def ethEntry_def tokenEntry_def orZero_def Math_round_def
        pow10_def)
  from wallet_top5_with_eth [OF walletLookup_sample] x e r
  have "length (walletTokens sampleWallet) \<le> 5"
    and "sorted_wrt (\<lambda>x y. balanceUsd y \<le> balanceUsd x) (walletTokens sampleWallet)"
    and "\<exists>t \<in> set (walletTokens sampleWallet). tokenName t = ''Ethereum'' \<and> tokenSymbol t = ''ETH'' \<and>
       balanceUsd t = balanceUsd (ethEntry ?e)"
    by blast+
  with walletLookup_sample walletTokens_sampleWallet r show ?thesis by blast
qed

section \<open>Claims about the deployment\<close>

lemma BigInt_divisor_nonzero:
  assumes "BigInt (if totalPct > 0 then totalPct else 100) = Inr d"
  shows "d > 0"
proof (cases "totalPct > 0")
  case True
  with assms have "totalPct = of_int d" by (auto simp: BigInt_def split: if_splits)
  with True show ?thesis by simp
next
  case False
  with assms show ?thesis by (auto simp: BigInt_def split: if_splits)
qed

lemma preliminaryAmount_no_division_by_zero:
  "preliminaryAmount walletBalance pct totalPct \<noteq> Inl (RangeError ''Division by zero'')"
proof (cases "BigInt pct")
  case (Inl e)
  then show ?thesis by (auto simp: preliminaryAmount_def BigInt_def split: if_splits)
next
  case (Inr p)
  show ?thesis
  proof (cases "BigInt (if totalPct > 0 then totalPct else 100)")
    case (Inl e)
    then have "e = RangeError ''The number cannot be converted to a BigInt because it is not an integer''"
      unfolding BigInt_def by (simp split: if_splits)
    with Inl Inr show ?thesis by (simp add: preliminaryAmount_def)
  next
    case (Inr d)
    from BigInt_divisor_nonzero [OF this] have "d \<noteq> 0" by simp
    with Inr \<open>BigInt pct = Inr p\<close> show ?thesis by (simp add: preliminaryAmount_def BigInt_div_def)
  qed
qed

lemma amountIn_eq_preliminaryAmount: "amountIn b pct totalPct = preliminaryAmount b pct totalPct"
  by (simp add: amountIn_def preliminaryAmount_def)

lemma pass_no_division_by_zero:
  "fst (pass env items totalPct k token st) \<noteq> Throw (RangeError ''Division by zero'')"
  using preliminaryAmount_no_division_by_zero
  by (auto simp: pass_def Let_def amountIn_eq_preliminaryAmount split: option.splits sum.splits)

lemma deployLoop_no_division_by_zero:
  "fst (deployLoop env items totalPct k toks st) \<noteq> Threw (RangeError ''Division by zero'')"
proof (induction toks arbitrary: k st)
  case Nil
  then show ?case by simp
next
  case (Cons token rest)
  obtain c st' where p: "pass env items totalPct k token st = (c, st')" by (cases "pass env items totalPct k token st")
  show ?case
  proof (cases c)
    case Next
    with p Cons.IH show ?thesis by simp
  next
    case Halt
    with p show ?thesis by simp
  next
    case (Throw e)
    with p pass_no_division_by_zero [of env items totalPct k token st] show ?thesis by simp
  qed
qed

lemma BigInt_integer: "BigInt (of_int n) = Inr n"
  by (simp add: BigInt_def)

lemma preliminaryAmount_total_zero:
  "totalPct \<le> 0 \<Longrightarrow> preliminaryAmount walletBalance (of_int p) totalPct = Inr (truncDiv (walletBalance * p) 100)"
  by (simp add: preliminaryAmount_def BigInt_integer BigInt_integer [of 100, simplified] BigInt_div_def)

lemma preliminaryAmount_integers:
  "preliminaryAmount walletBalance (of_int p) (of_int t) =
     Inr (truncDiv (walletBalance * p) (if t > 0 then t else 100))"
proof (cases "t > 0")
  case True
  then show ?thesis
    by (simp add: preliminaryAmount_def BigInt_integer BigInt_div_def)
next
  case False
  then show ?thesis
    by (simp add: preliminaryAmount_def BigInt_integer BigInt_integer [of 100, simplified] BigInt_div_def)
qed

lemma deployLoop_append:
  "deployLoop env items totalPct k xs st = (Completed, st') \<Longrightarrow>
   deployLoop env items totalPct k (xs @ ys) st = deployLoop env items totalPct (k + length xs) ys st'"
proof (induction xs arbitrary: k st)
  case Nil
  then show ?case by simp
next
  case (Cons x xs)
  obtain c st1 where p: "pass env items totalPct k x st = (c, st1)" by (cases "pass env items totalPct k x st")
  show ?case
  proof (cases c)
    case Next
    with p Cons.prems have "deployLoop env items totalPct (Suc k) xs st1 = (Completed, st')" by simp
    from Cons.IH [OF this] p Next show ?thesis by simp
  next
    case Halt
    with p Cons.prems show ?thesis by simp
  next
    case (Throw e)
    with p Cons.prems show ?thesis by simp
  qed
qed

lemma gasCost_margin:
  assumes "0 \<le> gasEstimate * gasPrice"
  shows "gasCost gasEstimate gasPrice = \<lfloor>real_of_int (gasEstimate * gasPrice) * (120 / 100)\<rfloor>"
proof -
  have "0 \<le> gasEstimate * gasPrice * 120" using assms by simp
  then have "gasCost gasEstimate gasPrice = (gasEstimate * gasPrice * 120) div 100"
    by (cases "gasEstimate * gasPrice * 120 = 0") (auto simp: gasCost_def truncDiv_def sgn_if)
  also have "\<dots> = \<lfloor>real_of_int (gasEstimate * gasPrice * 120) / real_of_int 100\<rfloor>"
    by (rule floor_divide_of_int_eq [symmetric])
  also have "real_of_int (gasEstimate * gasPrice * 120) / real_of_int 100
      = real_of_int (gasEstimate * gasPrice) * (120 / 100)" by simp
  finally show ?thesis .
qed

lemma join_contains:
  "x \<in> set xs \<Longrightarrow> \<exists>pre post. join xs = pre @ x @ post"
proof (induction xs rule: join.induct)
  case 1
  then show ?case by simp
next
  case (2 y)
  then have "join [y] = [] @ x @ []" by simp
  then show ?case by blast
next
  case (3 y z zs)
  show ?case
  proof (cases "x = y")
    case True
    then have "join (y # z # zs) = [] @ x @ ('', '' @ join (z # zs))" by simp
    then show ?thesis by blast
  next
    case False
    with 3 obtain pre post where "join (z # zs) = pre @ x @ post" by auto
    then have "join (y # z # zs) = (y @ '', '' @ pre) @ x @ post" by simp
    then show ?thesis by blast
  qed
qed

lemma toLowerCase_samples:
  "toLowerCase ''UNI'' = ''uni''" "toLowerCase ''uni'' = ''uni''"
  "toLowerCase ''LINK'' = ''link''" "toLowerCase ''link'' = ''link''"
  "toLowerCase ''DOGE'' = ''doge''" "toLowerCase ''doge'' = ''doge''"
  by (simp_all add: toLowerCase_def toLowerChar_def)

lemma sampleChecks_uni_doge:
  "sampleChecks [''uni'', ''doge''] = Some
     [\<lparr> tcSymbol = ''uni'', available = True, tcAddress = Some ''0x1f98'', tcDecimals = Some 18, tcName = Some ''Uniswap'' \<rparr>,
      \<lparr> tcSymbol = ''doge'', available = False, tcAddress = None, tcDecimals = None, tcName = None \<rparr>]"
  by (simp add: sampleChecks_def checkTokens_def toLowerCase_samples orNullString_def orNullNat_def)

lemma findItem_samples:
  "findItem [symbolItem ''uni'' 60, symbolItem ''link'' 40] ''uni'' = Some (symbolItem ''uni'' 60)"
  "findItem [symbolItem ''uni'' 60, symbolItem ''link'' 40] ''link'' = Some (symbolItem ''link'' 40)"
  by (simp_all add: findItem_def symbolItem_def symbolOrName_def toLowerCase_samples)

text \<open>
  C8. In a run with a non-empty portfolio and a connected wallet, if the availability
  check reports a token as not available, then no gas estimation is requested and no swap
  is submitted, and the status is the message that counts the unavailable assets and
  lists their symbols; the symbol of every unavailable token occurs in it.
\<close>

theorem unavailable_token_aborts:
  assumes "items \<noteq> []" and "connectedAddress = Some a" and "a \<noteq> []"
    and "checkTokensResponse env (filter (\<lambda>s. s \<noteq> []) (map symbolOrName items)) = Some checks"
    and "t \<in> set checks" and "\<not> available t"
  shows "swaps (deployPortfolio env (Some items) connectedAddress) = [] \<and>
         gasEstimates (deployPortfolio env (Some items) connectedAddress) = [] \<and>
         successCount (deployPortfolio env (Some items) connectedAddress) = 0 \<and>
         deployStatus (deployPortfolio env (Some items) connectedAddress)
           = Some (Literal (missingStatus (filter (\<lambda>c. \<not> available c) checks))) \<and>
         (\<exists>pre post. missingStatus (filter (\<lambda>c. \<not> available c) checks) = pre @ tcSymbol t @ post)"
proof -
  let ?missing = "filter (\<lambda>c. \<not> available c) checks"
  from assms(5,6) have m: "t \<in> set ?missing" by simp
  from assms(5,6) have "?missing \<noteq> []" by (auto simp: filter_empty_conv)
  then have run: "deployPortfolio env (Some items) connectedAddress
      = emptyRun\<lparr> tokenChecks := Some checks, deployStatus := Some (Literal (missingStatus ?missing)) \<rparr>"
    using assms(1-4) by (simp add: deployPortfolio_def Let_def)
  from m have "tcSymbol t \<in> set (map tcSymbol ?missing)" by simp
  then obtain pre post where "join (map tcSymbol ?missing) = pre @ tcSymbol t @ post"
    using join_contains by blast
  then have "missingStatus ?missing =
      (showNat (length ?missing) @ '' asset'' @ (if length ?missing > 1 then ''s'' else []) @
        '' not available on Uniswap: '' @ pre) @ tcSymbol t @ post"
    by (simp add: missingStatus_def)
  then have "\<exists>pre post. missingStatus ?missing = pre @ tcSymbol t @ post" by blast
  with run show ?thesis by (simp add: emptyRun_def)
qed

theorem unavailable_token_aborts_witness:
  "deployPortfolio sampleChain (Some [symbolItem ''uni'' 60, symbolItem ''doge'' 40]) (Some ''0xabc'')
     = emptyRun\<lparr> tokenChecks := sampleChecks [''uni'', ''doge''],
         deployStatus := Some (Literal ''1 asset not available on Uniswap: doge'') \<rparr>"
proof -
  let ?items = "[symbolItem ''uni'' 60, symbolItem ''doge'' 40]"
  let ?doge = "\<lparr> tcSymbol = ''doge'', available = False, tcAddress = None, tcDecimals = None, tcName = None \<rparr>"
  let ?uni = "\<lparr> tcSymbol = ''uni'', available = True, tcAddress = Some ''0x1f98'', tcDecimals = Some 18, tcName = Some ''Uniswap'' \<rparr>"
  have c: "checkTokensResponse sampleChain (filter (\<lambda>s. s \<noteq> []) (map symbolOrName ?items)) = Some [?uni, ?doge]"
    by (simp add: sampleChain_def symbolItem_def symbolOrName_def sampleChecks_uni_doge)
  have s: "missingStatus (filter (\<lambda>c. \<not> available c) [?uni, ?doge]) = ''1 asset not available on Uniswap: doge''"
    by (simp add: missingStatus_def showNat.simps)
  from unavailable_token_aborts [of ?items "Some ''0xabc''" "''0xabc''" sampleChain "[?uni, ?doge]" ?doge] c
  have "swaps (deployPortfolio sampleChain (Some ?items) (Some ''0xabc'')) = [] \<and>
        gasEstimates (deployPortfolio sampleChain (Some ?items) (Some ''0xabc'')) = [] \<and>
        successCount (deployPortfolio sampleChain (Some ?items) (Some ''0xabc'')) = 0 \<and>
        deployStatus (deployPortfolio sampleChain (Some ?items) (Some ''0xabc''))
          = Some (Literal ''1 asset not available on Uniswap: doge'')"
    unfolding s by simp
  moreover have "toasts (deployPortfolio sampleChain (Some ?items) (Some ''0xabc'')) = []"
    and "tokenChecks (deployPortfolio sampleChain (Some ?items) (Some ''0xabc'')) = Some [?uni, ?doge]"
    using c by (simp_all add: deployPortfolio_def Let_def emptyRun_def)
  ultimately show ?thesis
    by (simp add: emptyRun_def sampleChecks_uni_doge)
qed

text \<open>
  C9. The gas cost compared with the balance is the estimate times the gas price, times
  120, divided by 100 (for a non-negative product, the floor of 1.2 times it). When the
  passes over the tokens \<open>pre\<close> have completed and the next token reaches the comparison
  with a gas cost greater than or equal to the balance read in that pass, the loop halts
  there: the result is the state after \<open>pre\<close> plus this one gas estimation and the toast,
  whatever tokens \<open>rest\<close> follow, so none of them is attempted.
\<close>

theorem gas_cutoff_halts_run:
  assumes "deployLoop env items totalPct k pre st = (Completed, st1)"
    and "findItem items (tcSymbol token) = Some item"
    and "preliminaryAmount (balanceAt env (k + length pre)) (itemPercentage item) totalPct = Inr amt"
    and "amt \<noteq> 0"
    and "estimateGas env (k + length pre) (case tcAddress token of None \<Rightarrow> [] | Some a \<Rightarrow> a) amt = Some g"
    and "gasCost g (gasPriceOrDefault (gasPriceAt env (k + length pre))) \<ge> balanceAt env (k + length pre)"
  shows "deployLoop env items totalPct k (pre @ token # rest) st =
           (Halted, st1\<lparr> gasEstimates := gasEstimates st1 @ [(tcSymbol token, amt)],
                          toasts := toasts st1 @ [NotEnoughGas (tcSymbol token)
                            (gasCost g (gasPriceOrDefault (gasPriceAt env (k + length pre))))] \<rparr>) \<and>
         gasCost g (gasPriceOrDefault (gasPriceAt env (k + length pre)))
           = truncDiv (g * gasPriceOrDefault (gasPriceAt env (k + length pre)) * 120) 100 \<and>
         (0 \<le> g * gasPriceOrDefault (gasPriceAt env (k + length pre)) \<longrightarrow>
            gasCost g (gasPriceOrDefault (gasPriceAt env (k + length pre)))
              = \<lfloor>real_of_int (g * gasPriceOrDefault (gasPriceAt env (k + length pre))) * (120 / 100)\<rfloor>)"
proof -
  let ?k = "k + length pre"
  let ?cost = "gasCost g (gasPriceOrDefault (gasPriceAt env ?k))"
  have "pass env items totalPct ?k token st1 =
      (Halt, st1\<lparr> gasEstimates := gasEstimates st1 @ [(tcSymbol token, amt)],
                   toasts := toasts st1 @ [NotEnoughGas (tcSymbol token) ?cost] \<rparr>)"
    using assms(2-6) by (simp add: pass_def Let_def)
  then have "deployLoop env items totalPct ?k (token # rest) st1 =
      (Halted, st1\<lparr> gasEstimates := gasEstimates st1 @ [(tcSymbol token, amt)],
                     toasts := toasts st1 @ [NotEnoughGas (tcSymbol token) ?cost] \<rparr>)"
    by simp
  with deployLoop_append [OF assms(1), of "token # rest"] gasCost_margin show ?thesis
    by (simp add: gasCost_def)
qed

theorem gas_cutoff_halts_run_witness:
  "deployLoop sampleChain [symbolItem ''uni'' 60, symbolItem ''link'' 40] 100 0 ([] @ uniCheck # [linkCheck]) emptyRun
     = (Halted, emptyRun\<lparr> gasEstimates := [(''uni'', 600000)],
                           toasts := [NotEnoughGas ''uni'' 1260000000000000] \<rparr>) \<and>
   gasCost 21000 50000000000 = 1260000000000000 \<and>
   gasCost 21000 50000000000 \<ge> balanceAt sampleChain 0"
proof -
  let ?items = "[symbolItem ''uni'' 60, symbolItem ''link'' 40]"
  have a: "deployLoop sampleChain ?items 100 0 [] emptyRun = (Completed, emptyRun)" by simp
  have b: "findItem ?items (tcSymbol uniCheck) = Some (symbolItem ''uni'' 60)"
    by (simp add: uniCheck_def findItem_samples)
  have c: "preliminaryAmount (balanceAt sampleChain (0 + length ([] :: TokenCheck list)))
             (itemPercentage (symbolItem ''uni'' 60)) 100 = Inr 600000"
    by (simp add: sampleChain_def symbolItem_def preliminaryAmount_def BigInt_def BigInt_div_def truncDiv_def)
  have d: "(600000 :: int) \<noteq> 0" by simp
  have e: "estimateGas sampleChain (0 + length ([] :: TokenCheck list))
             (case tcAddress uniCheck of None \<Rightarrow> [] | Some a \<Rightarrow> a) 600000 = Some 21000"
    by (simp add: sampleChain_def)
  have p: "gasPriceOrDefault (gasPriceAt sampleChain (0 + length ([] :: TokenCheck list))) = 50000000000"
    by (simp add: sampleChain_def gasPriceOrDefault_def)
  have g: "gasCost 21000 50000000000 = 1260000000000000"
    by (simp add: gasCost_def truncDiv_def)
  have f: "gasCost 21000 (gasPriceOrDefault (gasPriceAt sampleChain (0 + length ([] :: TokenCheck list))))
             \<ge> balanceAt sampleChain (0 + length ([] :: TokenCheck list))"
    unfolding p g by (simp add: sampleChain_def)
  from gas_cutoff_halts_run [OF a b c d e f, of "[linkCheck]"] show ?thesis
    unfolding p g by (simp add: emptyRun_def uniCheck_def sampleChain_def)
qed

text \<open>
  C10 (as amended). Neither spend amount is ever a division by zero. When the total is
  not positive both divide by 100, and for an integer percentage and an integer total
  both return a value: the product divided by the total when that is positive, by 100
  otherwise. No pass of the loop throws a division by zero, and no run ends with one as
  its status.
\<close>

theorem spend_amounts_never_divide_by_zero:
  "preliminaryAmount walletBalance pct totalPct \<noteq> Inl (RangeError ''Division by zero'') \<and>
   amountIn usable pct totalPct \<noteq> Inl (RangeError ''Division by zero'') \<and>
   (totalPct \<le> 0 \<longrightarrow>
      preliminaryAmount walletBalance (of_int p) totalPct = Inr (truncDiv (walletBalance * p) 100) \<and>
      amountIn usable (of_int p) totalPct = Inr (truncDiv (usable * p) 100)) \<and>
   preliminaryAmount walletBalance (of_int p) (of_int t) = Inr (truncDiv (walletBalance * p) (if t > 0 then t else 100)) \<and>
   amountIn usable (of_int p) (of_int t) = Inr (truncDiv (usable * p) (if t > 0 then t else 100)) \<and>
   fst (deployLoop env items totalPct k toks st) \<noteq> Threw (RangeError ''Division by zero'') \<and>
   deployStatus (deployPortfolio env portfolio connectedAddress)
     \<noteq> Some (MessageOf (RangeError ''Division by zero''))"
proof -
  have "deployStatus (deployPortfolio env portfolio connectedAddress)
     \<noteq> Some (MessageOf (RangeError ''Division by zero''))"
  proof (cases portfolio)
    case None
    then show ?thesis by (simp add: deployPortfolio_def emptyRun_def)
  next
    case (Some its)
    show ?thesis
    proof (cases "checkTokensResponse env (filter (\<lambda>s. s \<noteq> []) (map symbolOrName its))")
      case None
      with Some show ?thesis by (simp add: deployPortfolio_def emptyRun_def Let_def)
    next
      case (Some checks)
      let ?avail = "filter (\<lambda>t. available t \<and> tcAddress t \<noteq> None \<and> tcAddress t \<noteq> Some []) checks"
      let ?st = "emptyRun\<lparr> tokenChecks := Some checks \<rparr>"
      obtain oc st' where l: "deployLoop env its (totalPercentage its ?avail) 0 ?avail ?st = (oc, st')"
        by (cases "deployLoop env its (totalPercentage its ?avail) 0 ?avail ?st")
      with deployLoop_no_division_by_zero [of env its "totalPercentage its ?avail" 0 ?avail ?st]
      have "oc \<noteq> Threw (RangeError ''Division by zero'')" by simp
      with l Some \<open>portfolio = Some its\<close> show ?thesis
        by (cases oc) (simp_all add: deployPortfolio_def emptyRun_def Let_def)
    qed
  qed
  then show ?thesis
    using preliminaryAmount_no_division_by_zero preliminaryAmount_total_zero
      preliminaryAmount_integers deployLoop_no_division_by_zero
    by (simp add: amountIn_eq_preliminaryAmount)
qed

theorem spend_amounts_never_divide_by_zero_witness:
  "preliminaryAmount 1000000 60 0 = Inr 600000 \<and>
   amountIn 999000 60 0 = Inr 599400 \<and>
   preliminaryAmount 1000000 60 150 = Inr 400000 \<and>
   amountIn 999000 60 150 = Inr 399600"
  using spend_amounts_never_divide_by_zero [of 1000000 60 0 999000 60 150 sampleChain "[]" 0 "[]" emptyRun None None]
    spend_amounts_never_divide_by_zero [of 1000000 60 150 999000 60 150 sampleChain "[]" 0 "[]" emptyRun None None]
  by (simp add: truncDiv_def)

text \<open>
  C10 as stated fails for a percentage that is not an integer: \<open>BigInt(33.5)\<close> throws,
  so neither spend amount is computed.
\<close>

theorem spend_amounts_counterexample:
  "preliminaryAmount 1000000 (67 / 2) 100
     = Inl (RangeError ''The number cannot be converted to a BigInt because it is not an integer'') \<and>
   amountIn 999000 (67 / 2) 100
     = Inl (RangeError ''The number cannot be converted to a BigInt because it is not an integer'')"
  by (simp add: preliminaryAmount_def amountIn_def BigInt_def)

end
